theory Spec2Isabelle
  imports Complex_Main
begin

section \<open>Python string primitives used by the pipeline\<close>

text \<open>
  Strings are character lists, a character being a code point below 256. \<open>is_space\<close>
  lists the twelve such code points for which Python's \<open>str.isspace\<close> holds: the ASCII
  ones, U+0085 (next line) and U+00A0 (no-break space). The case functions act on the
  letters a-z and A-Z.
\<close>

definition is_space :: "char \<Rightarrow> bool" where
  "is_space c = (c \<in> set [CHR '' '', CHR 0x09, CHR 0x0A, CHR 0x0B, CHR 0x0C, CHR 0x0D,
                           CHR 0x1C, CHR 0x1D, CHR 0x1E, CHR 0x1F, CHR 0x85, CHR 0xA0])"

text \<open>\<open>s.split()\<close>: the maximal runs of non-whitespace characters, in order.\<close>

fun split_ws :: "string \<Rightarrow> string \<Rightarrow> string list" where
  "split_ws [] w = (if w = [] then [] else [w])"
| "split_ws (c # cs) w =
     (if is_space c then (if w = [] then split_ws cs [] else w # split_ws cs [])
      else split_ws cs (w @ [c]))"

definition py_split :: "string \<Rightarrow> string list" where
  "py_split s = split_ws s []"

text \<open>\<open>sep.join(parts)\<close>.\<close>

fun join :: "string \<Rightarrow> string list \<Rightarrow> string" where
  "join sep [] = []"
| "join sep [x] = x"
| "join sep (x # y # ys) = x @ sep @ join sep (y # ys)"

text \<open>\<open>s.strip()\<close> and \<open>s.rstrip(chars)\<close>.\<close>

definition strip :: "string \<Rightarrow> string" where
  "strip s = rev (dropWhile is_space (rev (dropWhile is_space s)))"

definition rstrip_chars :: "string \<Rightarrow> string \<Rightarrow> string" where
  "rstrip_chars cs s = rev (dropWhile (\<lambda>c. c \<in> set cs) (rev s))"

definition is_lower :: "char \<Rightarrow> bool" where
  "is_lower c = (97 \<le> (of_char c :: nat) \<and> (of_char c :: nat) \<le> 122)"

definition is_upper :: "char \<Rightarrow> bool" where
  "is_upper c = (65 \<le> (of_char c :: nat) \<and> (of_char c :: nat) \<le> 90)"

definition to_upper :: "char \<Rightarrow> char" where
  "to_upper c = (if is_lower c then char_of ((of_char c :: nat) - 32) else c)"

definition to_lower :: "char \<Rightarrow> char" where
  "to_lower c = (if is_upper c then char_of ((of_char c :: nat) + 32) else c)"

text \<open>
  \<open>s.title()\<close>: a cased character that follows an uncased one is put in upper case, a
  cased character that follows a cased one in lower case. The flag is CPython's
  \<open>previous_is_cased\<close>.
\<close>

fun title_case :: "bool \<Rightarrow> string \<Rightarrow> string" where
  "title_case prev [] = []"
| "title_case prev (c # cs) =
     (if is_lower c then (if prev then c else to_upper c) # title_case True cs
      else if is_upper c then (if prev then to_lower c else c) # title_case True cs
      else c # title_case False cs)"

section \<open>Data model\<close>

text \<open>
  A transcript segment as the pipeline reads it (\<open>text\<close>, \<open>start\<close>, \<open>end\<close> of
  \<open>TranscriptSegment\<close> in transcriber.py; the remaining fields are never read by the
  pipeline). Times are Python floats in the source and real numbers here.
\<close>

record segment =
  seg_text :: string
  seg_start :: real
  seg_end :: real

text \<open>The module dictionary built by \<open>structure_transcript\<close>.\<close>

record module =
  title :: string
  content :: "segment list"
  start_time :: real
  end_time :: real

text \<open>\<open>VideoInfo\<close> of transcriber.py.\<close>

record video =
  video_title :: string
  embed_url :: string
  duration :: int
  transcript :: "segment list"

text \<open>
  JSON values: what \<open>json.loads\<close> returns and what the quiz cache stores in its
  \<open>questions\<close> column.
\<close>

datatype json =
    JNull
  | JBool bool
  | JNum real
  | JStr string
  | JArr "json list"
  | JObj "(string \<times> json) list"

text \<open>Python truthiness of a JSON value (\<open>if value:\<close>).\<close>

fun truthy :: "json \<Rightarrow> bool" where
  "truthy JNull = False"
| "truthy (JBool b) = b"
| "truthy (JNum x) = (x \<noteq> 0)"
| "truthy (JStr s) = (s \<noteq> [])"
| "truthy (JArr xs) = (xs \<noteq> [])"
| "truthy (JObj kvs) = (kvs \<noteq> [])"

text \<open>\<open>len(value)\<close>: defined on lists, dictionaries and strings, a \<open>TypeError\<close> elsewhere.\<close>

fun py_len :: "json \<Rightarrow> nat option" where
  "py_len (JArr xs) = Some (length xs)"
| "py_len (JObj kvs) = Some (length kvs)"
| "py_len (JStr s) = Some (length s)"
| "py_len _ = None"

datatype error =
    ValueError string
  | TypeError
  | UnboundLocalError
  | ResponseError
  | JSONDecodeError

text \<open>
  The calls that leave the process, logged in the order they are made: the transcript
  provider \<open>transcribe_youtube_video\<close> called with a URL (every call begins with the
  metadata lookup of yt-dlp for that URL), the audio of a URL downloaded and transcribed
  by Whisper, the title model called for a text, the quiz model called for a text, a
  difficulty and a question count, and one entry for every run of the segmentation loop.
\<close>

datatype event =
    TranscriptCall string
  | WhisperRun string
  | TitleCall string
  | QuizCall string string int
  | SegmenterRun

text \<open>
  The state the pipeline works on: the table \<open>transcriptions\<close> (primary key
  \<open>video_id\<close>), the table \<open>course_modules\<close> (primary key \<open>video_id\<close>), the table
  \<open>module_questions\<close> (primary key \<open>(video_id, module_title)\<close>, the row holding the
  difficulty and the questions) and the log of outside calls. A value written to a table
  is read back unchanged (\<open>json.dumps\<close> then \<open>json.loads\<close>).
\<close>

record world =
  transcriptions_db :: "string \<rightharpoonup> video"
  modules_db :: "string \<rightharpoonup> module list"
  quiz_db :: "string \<times> string \<rightharpoonup> string \<times> json"
  calls :: "event list"

section \<open>modules.py\<close>

definition CHUNK_SIZE :: real where
  "CHUNK_SIZE = 600"

text \<open>
  \<open>TitleGenerator.generate_title\<close>. The parameter \<open>llm\<close> stands for \<open>call_nebius_llm\<close>
  on the title prompt built from the text, followed by the extraction of the completion
  from the response: \<open>None\<close> when the call returns no response or the extraction raises
  (the method catches every exception and returns \<open>None\<close>).
\<close>

definition generate_title :: "(string \<Rightarrow> string option) \<Rightarrow> string \<Rightarrow> world \<Rightarrow> string option \<times> world" where
  "generate_title llm txt w =
     (map_option strip (llm txt), w\<lparr>calls := calls w @ [TitleCall txt]\<rparr>)"

text \<open>\<open>generate_module_title\<close>: the model's title when it is truthy, the fallback otherwise.\<close>

definition generate_module_title :: "(string \<Rightarrow> string option) \<Rightarrow> segment list \<Rightarrow> world \<Rightarrow> string \<times> world" where
  "generate_module_title llm cont w =
     (let full_text = join '' '' (map seg_text cont);
          (t, w1) = generate_title llm full_text w
      in case t of
           Some ti \<Rightarrow>
             if ti \<noteq> [] then (rstrip_chars ''.!?'' (title_case False ti), w1)
             else
               (let words = py_split full_text
                in if length words > 10 then (join '' '' (take 10 words) @ ''...'', w1)
                   else (full_text, w1))
         | None \<Rightarrow>
             (let words = py_split full_text
              in if length words > 10 then (join '' '' (take 10 words) @ ''...'', w1)
                 else (full_text, w1)))"

text \<open>
  The \<open>for entry in video['transcript']\<close> loop of \<open>structure_transcript\<close>. The loop state
  is the list \<open>modules\<close>, the dictionary \<open>current_module\<close> and the world.
\<close>

fun segment_loop :: "(string \<Rightarrow> string option) \<Rightarrow> segment list \<Rightarrow> module list \<Rightarrow> module \<Rightarrow> world
    \<Rightarrow> module list \<times> module \<times> world" where
  "segment_loop llm [] modules cur w = (modules, cur, w)"
| "segment_loop llm (entry # rest) modules cur w =
     (if content cur = [] then
        segment_loop llm rest modules
          (cur\<lparr>start_time := seg_start entry, content := content cur @ [entry]\<rparr>) w
      else if seg_start entry - start_time cur < CHUNK_SIZE then
        segment_loop llm rest modules (cur\<lparr>content := content cur @ [entry]\<rparr>) w
      else
        (let (t, w1) = generate_module_title llm (content cur) w;
             done = cur\<lparr>end_time := seg_end (last (content cur)), title := t\<rparr>
         in segment_loop llm rest (modules @ [done])
              \<lparr>title = '''', content = [entry], start_time = seg_start entry, end_time = 0\<rparr> w1))"

text \<open>
  The cache-miss part of \<open>structure_transcript\<close> up to the save: the initial accumulator,
  the loop, and the last module added when it has content.
\<close>

definition segment_transcript :: "(string \<Rightarrow> string option) \<Rightarrow> segment list \<Rightarrow> world \<Rightarrow> module list \<times> world" where
  "segment_transcript llm entries w =
     (let (modules, cur, w1) =
            segment_loop llm entries []
              \<lparr>title = '''', content = [], start_time = 0, end_time = 0\<rparr>
              (w\<lparr>calls := calls w @ [SegmenterRun]\<rparr>)
      in if content cur \<noteq> [] then
           (let (t, w2) = generate_module_title llm (content cur) w1
            in (modules @ [cur\<lparr>end_time := seg_end (last (content cur)), title := t\<rparr>], w2))
         else (modules, w1))"


text \<open>
  \<open>extract_video_id\<close>: \<open>re.search\<close> of the pattern
  \<^verbatim>\<open>(?:embed\/|watch\?v=|\/)?([a-zA-Z0-9_-]{11})\<close>. At each position, leftmost first, the
  optional prefix is tried (its alternatives in order), then no prefix; the result is
  the group of eleven identifier characters.
\<close>

definition id_char :: "char \<Rightarrow> bool" where
  "id_char c = (is_lower c \<or> is_upper c \<or> (48 \<le> (of_char c :: nat) \<and> (of_char c :: nat) \<le> 57)
                \<or> c = CHR ''_'' \<or> c = CHR ''-'')"

definition id_token :: "string \<Rightarrow> string option" where
  "id_token s = (if 11 \<le> length s \<and> list_all id_char (take 11 s) then Some (take 11 s) else None)"

fun strip_prefix :: "string \<Rightarrow> string \<Rightarrow> string option" where
  "strip_prefix [] s = Some s"
| "strip_prefix (p # ps) [] = None"
| "strip_prefix (p # ps) (c # cs) = (if p = c then strip_prefix ps cs else None)"

definition after_prefix :: "string \<Rightarrow> string \<Rightarrow> string option" where
  "after_prefix p s = (case strip_prefix p s of None \<Rightarrow> None | Some r \<Rightarrow> id_token r)"

definition match_here :: "string \<Rightarrow> string option" where
  "match_here s =
     (case after_prefix ''embed/'' s of
        Some g \<Rightarrow> Some g
      | None \<Rightarrow>
          (case after_prefix ''watch?v='' s of
             Some g \<Rightarrow> Some g
           | None \<Rightarrow>
               (case after_prefix ''/'' s of
                  Some g \<Rightarrow> Some g
                | None \<Rightarrow> id_token s)))"

fun regex_search :: "string \<Rightarrow> string option" where
  "regex_search [] = match_here []"
| "regex_search (c # cs) = (case match_here (c # cs) of Some g \<Rightarrow> Some g | None \<Rightarrow> regex_search cs)"

definition extract_video_id :: "string \<Rightarrow> string option" where
  "extract_video_id url = regex_search url"

text \<open>
  \<open>get_cached_modules\<close> and \<open>save_modules_to_cache\<close>. The identifier is \<open>None\<close> when the
  pattern found nothing: SQLite then compares with NULL, which selects no row, and the
  row written under a NULL key is never selected by a later lookup.
\<close>

definition get_cached_modules :: "world \<Rightarrow> string option \<Rightarrow> module list option" where
  "get_cached_modules w video_id = (case video_id of None \<Rightarrow> None | Some k \<Rightarrow> modules_db w k)"

definition save_modules_to_cache :: "string option \<Rightarrow> module list \<Rightarrow> world \<Rightarrow> world" where
  "save_modules_to_cache video_id modules w =
     (case video_id of None \<Rightarrow> w | Some k \<Rightarrow> w\<lparr>modules_db := (modules_db w)(k \<mapsto> modules)\<rparr>)"

text \<open>\<open>if cached_modules:\<close> is false for \<open>None\<close> and for the empty list.\<close>

definition cached_modules_hit :: "module list option \<Rightarrow> bool" where
  "cached_modules_hit c = (case c of None \<Rightarrow> False | Some ms \<Rightarrow> ms \<noteq> [])"

definition structure_transcript :: "(string \<Rightarrow> string option) \<Rightarrow> video \<Rightarrow> world \<Rightarrow> module list \<times> world" where
  "structure_transcript llm v w =
     (let video_id = extract_video_id (embed_url v);
          cached_modules = get_cached_modules w video_id
      in if cached_modules_hit cached_modules then (the cached_modules, w)
         else
           (let (modules, w1) = segment_transcript llm (transcript v) w
            in (modules, save_modules_to_cache video_id modules w1)))"

section \<open>The segmentation boundary\<close>

definition seg10 :: "real \<Rightarrow> segment" where
  "seg10 s = \<lparr>seg_text = ''x'', seg_start = s, seg_end = s + 10\<rparr>"

text \<open>
  Claim C4. With \<open>CHUNK_SIZE = 600\<close>, five segments of ten seconds starting at 0, 10, 20,
  600 and 610 give exactly two modules, whatever the title model answers: the first holds
  the first three segments and starts at 0, the second holds the last two and starts at
  600. The segment whose offset equals \<open>CHUNK_SIZE\<close> closes the first module, the test
  being a strict \<open><\<close>.
\<close>

theorem segmentation_boundary:
  "CHUNK_SIZE = 600 \<and>
   map content (fst (segment_transcript llm [seg10 0, seg10 10, seg10 20, seg10 600, seg10 610] w))
     = [[seg10 0, seg10 10, seg10 20], [seg10 600, seg10 610]] \<and>
   map start_time (fst (segment_transcript llm [seg10 0, seg10 10, seg10 20, seg10 600, seg10 610] w))
     = [0, 600]"
  by (simp add: segment_transcript_def CHUNK_SIZE_def seg10_def Let_def split_beta)

section \<open>Segmentation partitions the transcript\<close>

definition empty_world :: world where
  "empty_world =
     \<lparr>transcriptions_db = Map.empty, modules_db = Map.empty, quiz_db = Map.empty, calls = []\<rparr>"

definition example_video :: video where
  "example_video =
     \<lparr>video_title = ''Intro'', embed_url = ''https://www.youtube.com/embed/UEtBMyzLBFY'',
      duration = 620, transcript = [seg10 0, seg10 10, seg10 20, seg10 600, seg10 610]\<rparr>"

lemma extract_example_id:
  "extract_video_id ''https://www.youtube.com/embed/UEtBMyzLBFY'' = Some ''UEtBMyzLBFY''"
  by (simp add: extract_video_id_def match_here_def after_prefix_def id_token_def id_char_def
      is_lower_def is_upper_def)

text \<open>
  The loop never loses or repeats a segment: what the finished modules and the
  accumulator hold after the loop is what they held before it, followed by the entries
  read.
\<close>

lemma segment_loop_concat:
  "segment_loop llm es ms cur w = (ms', cur', w') \<Longrightarrow>
   concat (map content ms') @ content cur' = concat (map content ms) @ content cur @ es"
proof (induction es arbitrary: ms cur w)
  case Nil
  then show ?case by simp
next
  case (Cons e es)
  show ?case
  proof (cases "content cur = []")
    case True
    with Cons.prems Cons.IH show ?thesis by fastforce
  next
    case ne: False
    show ?thesis
    proof (cases "seg_start e - start_time cur < CHUNK_SIZE")
      case True
      with ne Cons.prems Cons.IH show ?thesis by fastforce
    next
      case False
      with ne Cons.prems Cons.IH show ?thesis
        by (fastforce simp: Let_def split: prod.splits)
    qed
  qed
qed

lemma segment_transcript_concat:
  "concat (map content (fst (segment_transcript llm es w))) = es"
proof -
  obtain ms cur w1 where l:
    "segment_loop llm es [] \<lparr>title = '''', content = [], start_time = 0, end_time = 0\<rparr>
       (w\<lparr>calls := calls w @ [SegmenterRun]\<rparr>) = (ms, cur, w1)"
    by (metis prod_cases3)
  from segment_loop_concat[OF l] have "concat (map content ms) @ content cur = es" by simp
  with l show ?thesis
    by (auto simp: segment_transcript_def Let_def split: prod.splits)
qed

lemma segment_transcript_Nil: "fst (segment_transcript llm [] w) = []"
  by (simp add: segment_transcript_def)

lemma structure_transcript_miss:
  "\<not> cached_modules_hit (get_cached_modules w (extract_video_id (embed_url v))) \<Longrightarrow>
   fst (structure_transcript llm v w) = fst (segment_transcript llm (transcript v) w)"
  by (simp add: structure_transcript_def Let_def split_beta)

text \<open>
  Claim C2. On a cache miss the contents of the modules \<open>structure_transcript\<close> returns,
  concatenated in the order the modules are emitted, are the input segments: the same
  segments in the same order, none twice and none missing. This holds for every
  transcript, and the empty transcript gives no module.
\<close>

theorem segmentation_partitions:
  assumes "\<not> cached_modules_hit (get_cached_modules w (extract_video_id (embed_url v)))"
  shows "concat (map content (fst (structure_transcript llm v w))) = transcript v \<and>
         fst (structure_transcript llm (v\<lparr>transcript := []\<rparr>) w) = []"
proof -
  have "\<not> cached_modules_hit
          (get_cached_modules w (extract_video_id (embed_url (v\<lparr>transcript := []\<rparr>))))"
    using assms by simp
  then have "fst (structure_transcript llm (v\<lparr>transcript := []\<rparr>) w) = []"
    by (simp add: structure_transcript_miss segment_transcript_Nil)
  moreover have "concat (map content (fst (structure_transcript llm v w))) = transcript v"
    using assms by (simp add: structure_transcript_miss segment_transcript_concat)
  ultimately show ?thesis by simp
qed

theorem segmentation_partitions_witness:
  "\<not> cached_modules_hit (get_cached_modules empty_world (extract_video_id (embed_url example_video))) \<and>
   concat (map content (fst (structure_transcript (\<lambda>t. None) example_video empty_world)))
     = [seg10 0, seg10 10, seg10 20, seg10 600, seg10 610] \<and>
   fst (structure_transcript (\<lambda>t. None) (example_video\<lparr>transcript := []\<rparr>) empty_world) = []"
proof -
  have miss: "\<not> cached_modules_hit
      (get_cached_modules empty_world (extract_video_id (embed_url example_video)))"
    by (simp add: example_video_def extract_example_id get_cached_modules_def empty_world_def
        cached_modules_hit_def)
  from segmentation_partitions[OF miss, of "\<lambda>t. None"] miss show ?thesis
    by (simp add: example_video_def)
qed

section \<open>The module invariant\<close>

definition module_invariant :: "module \<Rightarrow> bool" where
  "module_invariant m =
     (content m \<noteq> [] \<and> start_time m = seg_start (hd (content m)) \<and>
      end_time m = seg_end (last (content m)))"

definition segments_disjoint :: "segment list \<Rightarrow> bool" where
  "segments_disjoint es = successively (\<lambda>a b. seg_end a \<le> seg_start b) es"

definition modules_disjoint :: "module list \<Rightarrow> bool" where
  "modules_disjoint ms = successively (\<lambda>a b. end_time a \<le> start_time b) ms"

definition seeded :: "module \<Rightarrow> bool" where
  "seeded cur = (content cur = [] \<or> start_time cur = seg_start (hd (content cur)))"

lemma segment_loop_invariant:
  "segment_loop llm es ms cur w = (ms', cur', w') \<Longrightarrow> list_all module_invariant ms \<Longrightarrow> seeded cur
   \<Longrightarrow> list_all module_invariant ms' \<and> seeded cur'"
proof (induction es arbitrary: ms cur w)
  case Nil
  then show ?case by simp
next
  case (Cons e es)
  show ?case
  proof (cases "content cur = []")
    case True
    with Cons.prems have "segment_loop llm es ms
          (cur\<lparr>start_time := seg_start e, content := content cur @ [e]\<rparr>) w = (ms', cur', w')"
      by simp
    moreover have "seeded (cur\<lparr>start_time := seg_start e, content := content cur @ [e]\<rparr>)"
      using True by (simp add: seeded_def)
    ultimately show ?thesis using Cons.IH Cons.prems(2) by blast
  next
    case ne: False
    show ?thesis
    proof (cases "seg_start e - start_time cur < CHUNK_SIZE")
      case True
      with ne Cons.prems have "segment_loop llm es ms (cur\<lparr>content := content cur @ [e]\<rparr>) w = (ms', cur', w')"
        by simp
      moreover have "seeded (cur\<lparr>content := content cur @ [e]\<rparr>)"
        using ne Cons.prems(3) by (simp add: seeded_def)
      ultimately show ?thesis using Cons.IH Cons.prems(2) by blast
    next
      case False
      obtain t w1 where g: "generate_module_title llm (content cur) w = (t, w1)"
        by (metis surj_pair)
      let ?done = "cur\<lparr>end_time := seg_end (last (content cur)), title := t\<rparr>"
      let ?new = "\<lparr>title = '''', content = [e], start_time = seg_start e, end_time = 0\<rparr>"
      from False ne g Cons.prems have "segment_loop llm es (ms @ [?done]) ?new w1 = (ms', cur', w')"
        by simp
      moreover have "module_invariant ?done"
        using ne Cons.prems(3) by (simp add: module_invariant_def seeded_def)
      then have "list_all module_invariant (ms @ [?done])"
        using Cons.prems(2) by simp
      moreover have "seeded ?new" by (simp add: seeded_def)
      ultimately show ?thesis using Cons.IH by blast
    qed
  qed
qed

lemma segment_transcript_invariant:
  "list_all module_invariant (fst (segment_transcript llm es w))"
proof -
  let ?init = "\<lparr>title = '''', content = [], start_time = 0, end_time = 0\<rparr>"
  obtain ms cur w1 where l:
    "segment_loop llm es [] ?init (w\<lparr>calls := calls w @ [SegmenterRun]\<rparr>) = (ms, cur, w1)"
    by (metis prod_cases3)
  have "list_all module_invariant ms \<and> seeded cur"
    by (rule segment_loop_invariant[OF l]) (simp_all add: seeded_def)
  with l show ?thesis
    by (auto simp: segment_transcript_def Let_def module_invariant_def seeded_def split: prod.splits)
qed

lemma successively_concat:
  "successively P (concat xss) \<Longrightarrow> list_all (\<lambda>xs. xs \<noteq> []) xss \<Longrightarrow>
   successively (\<lambda>xs ys. P (last xs) (hd ys)) xss"
proof (induction xss)
  case Nil
  then show ?case by simp
next
  case (Cons xs xss)
  show ?case
  proof (cases xss)
    case Nil
    then show ?thesis by simp
  next
    case (Cons ys yss)
    with Cons.prems have "xs \<noteq> []" "ys \<noteq> []" by simp_all
    with Cons.prems Cons.IH Cons show ?thesis
      by (auto simp: successively_append_iff)
  qed
qed

lemma modules_disjoint_partition:
  assumes "segments_disjoint (concat (map content ms))" "list_all module_invariant ms"
  shows "modules_disjoint ms"
proof -
  have ne: "list_all (\<lambda>xs. xs \<noteq> []) (map content ms)"
    using assms(2) by (simp add: list_all_iff module_invariant_def)
  have "successively (\<lambda>xs ys. seg_end (last xs) \<le> seg_start (hd ys)) (map content ms)"
    using successively_concat[OF assms(1)[unfolded segments_disjoint_def] ne] .
  then have "successively (\<lambda>a b. seg_end (last (content a)) \<le> seg_start (hd (content b))) ms"
    by (simp add: successively_map)
  then have "successively (\<lambda>a b. end_time a \<le> start_time b) ms"
  proof (rule successively_mono)
    fix a b
    assume "a \<in> set ms" "b \<in> set ms"
      and "seg_end (last (content a)) \<le> seg_start (hd (content b))"
    with assms(2) show "end_time a \<le> start_time b"
      by (simp add: list_all_iff module_invariant_def)
  qed
  then show ?thesis by (simp add: modules_disjoint_def)
qed


definition overlapping_video :: video where
  "overlapping_video =
     \<lparr>video_title = ''Talk'', embed_url = ''https://www.youtube.com/embed/UEtBMyzLBFY'',
      duration = 700,
      transcript = [\<lparr>seg_text = ''a'', seg_start = 0, seg_end = 10\<rparr>,
                    \<lparr>seg_text = ''b'', seg_start = 5, seg_end = 700\<rparr>,
                    \<lparr>seg_text = ''c'', seg_start = 600, seg_end = 610\<rparr>]\<rparr>"

text \<open>
  Claim C3, as the code has it. On a cache miss every module returned has a non-empty
  content, starts where its first segment starts and ends where its last segment ends;
  the modules are consecutive runs of the transcript that cover it exactly once; and
  when no segment of the transcript ends after the next one starts, no module ends after
  the next one starts.
\<close>

theorem module_invariants:
  assumes "\<not> cached_modules_hit (get_cached_modules w (extract_video_id (embed_url v)))"
  shows "list_all module_invariant (fst (structure_transcript llm v w)) \<and>
         concat (map content (fst (structure_transcript llm v w))) = transcript v \<and>
         (segments_disjoint (transcript v) \<longrightarrow> modules_disjoint (fst (structure_transcript llm v w)))"
proof -
  let ?ms = "fst (structure_transcript llm v w)"
  have eq: "?ms = fst (segment_transcript llm (transcript v) w)"
    using assms by (rule structure_transcript_miss)
  have inv: "list_all module_invariant ?ms"
    by (simp add: eq segment_transcript_invariant)
  have cat: "concat (map content ?ms) = transcript v"
    by (simp add: eq segment_transcript_concat)
  have "modules_disjoint ?ms" if "segments_disjoint (transcript v)"
    using that inv cat modules_disjoint_partition[of ?ms] by simp
  with inv cat show ?thesis by blast
qed

theorem module_invariants_witness:
  "\<not> cached_modules_hit (get_cached_modules empty_world (extract_video_id (embed_url example_video))) \<and>
   segments_disjoint (transcript example_video) \<and>
   list_all module_invariant (fst (structure_transcript (\<lambda>t. None) example_video empty_world)) \<and>
   concat (map content (fst (structure_transcript (\<lambda>t. None) example_video empty_world)))
     = transcript example_video \<and>
   modules_disjoint (fst (structure_transcript (\<lambda>t. None) example_video empty_world))"
proof -
  have miss: "\<not> cached_modules_hit
      (get_cached_modules empty_world (extract_video_id (embed_url example_video)))"
    by (simp add: example_video_def extract_example_id get_cached_modules_def empty_world_def
        cached_modules_hit_def)
  have dis: "segments_disjoint (transcript example_video)"
    by (simp add: segments_disjoint_def example_video_def seg10_def)
  from module_invariants[OF miss, of "\<lambda>t. None"] miss dis show ?thesis
    by simp
qed

text \<open>
  The claim as written fails where segments overlap: the starts 0, 5 and 600 are in
  order and every segment ends after it starts, yet the first module ends at 700 and the
  second starts at 600.
\<close>

theorem module_time_overlap_counterexample:
  "map (\<lambda>m. (start_time m, end_time m))
     (fst (structure_transcript (\<lambda>t. None) overlapping_video empty_world)) = [(0, 700), (600, 610)] \<and>
   \<not> modules_disjoint (fst (structure_transcript (\<lambda>t. None) overlapping_video empty_world))"
  by (simp add: structure_transcript_def overlapping_video_def extract_example_id
      get_cached_modules_def empty_world_def cached_modules_hit_def segment_transcript_def
      CHUNK_SIZE_def modules_disjoint_def Let_def split_beta)

section \<open>The title fallback\<close>

definition one_segment :: "string \<Rightarrow> segment list" where
  "one_segment s = [\<lparr>seg_text = s, seg_start = 0, seg_end = 10\<rparr>]"

lemma split_test_sentence:
  "py_split ''This is a test sentence.'' = [''This'', ''is'', ''a'', ''test'', ''sentence.'']"
  by (simp add: py_split_def is_space_def)

lemma split_twelve_words:
  "py_split ''a b c d e f g h i j k l'' =
     [''a'', ''b'', ''c'', ''d'', ''e'', ''f'', ''g'', ''h'', ''i'', ''j'', ''k'', ''l'']"
  by (simp add: py_split_def is_space_def)

text \<open>
  Claim C5, as the code has it. When the title model call fails, the title of a module
  is a function of the joined text alone: with more than ten whitespace-delimited words
  it is the first ten words joined by single spaces and followed by three dots, and with
  ten words or fewer it is the text itself, character for character (surrounding
  whitespace included). For the text \<open>This is a test sentence.\<close> it is that text.
\<close>

theorem title_fallback:
  assumes "llm (join '' '' (map seg_text cont)) = None"
  shows "(length (py_split (join '' '' (map seg_text cont))) > 10 \<longrightarrow>
            fst (generate_module_title llm cont w)
              = join '' '' (take 10 (py_split (join '' '' (map seg_text cont)))) @ ''...'') \<and>
         (length (py_split (join '' '' (map seg_text cont))) \<le> 10 \<longrightarrow>
            fst (generate_module_title llm cont w) = join '' '' (map seg_text cont))"
  using assms
  by (simp add: generate_module_title_def generate_title_def Let_def)

theorem title_fallback_witness:
  "(\<lambda>t. None) (join '' '' (map seg_text (one_segment ''This is a test sentence.'')))
     = (None :: string option) \<and>
   length (py_split (join '' '' (map seg_text (one_segment ''This is a test sentence.'')))) \<le> 10 \<and>
   fst (generate_module_title (\<lambda>t. None) (one_segment ''This is a test sentence.'') empty_world)
     = ''This is a test sentence.'' \<and>
   length (py_split (join '' '' (map seg_text (one_segment ''a b c d e f g h i j k l'')))) > 10 \<and>
   fst (generate_module_title (\<lambda>t. None) (one_segment ''a b c d e f g h i j k l'') empty_world)
     = ''a b c d e f g h i j...'' \<and>
   length (py_split (join '' '' (map seg_text (one_segment (''a'' @ [CHR 0xA0] @ ''b c d e f g h i j k''))))) > 10 \<and>
   fst (generate_module_title (\<lambda>t. None) (one_segment (''a'' @ [CHR 0xA0] @ ''b c d e f g h i j k''))
          empty_world)
     = ''a b c d e f g h i j...''"
proof -
  have f: "(\<lambda>t. None) x = (None :: string option)" for x :: string
    by simp
  have n: "py_split (''a'' @ [CHR 0xA0] @ ''b c d e f g h i j k'') =
     [''a'', ''b'', ''c'', ''d'', ''e'', ''f'', ''g'', ''h'', ''i'', ''j'', ''k'']"
    by (simp add: py_split_def is_space_def)
  from title_fallback[of "\<lambda>t. None" "one_segment ''This is a test sentence.''" empty_world, OF f]
       title_fallback[of "\<lambda>t. None" "one_segment ''a b c d e f g h i j k l''" empty_world, OF f]
       title_fallback[of "\<lambda>t. None" "one_segment (''a'' @ [CHR 0xA0] @ ''b c d e f g h i j k'')"
         empty_world, OF f]
  show ?thesis
    using n by (simp add: one_segment_def split_test_sentence split_twelve_words)
qed

text \<open>
  The claim as written fails on a text with surrounding whitespace: the fallback
  returns it as it is, not trimmed.
\<close>

theorem title_fallback_untrimmed_counterexample:
  "length (py_split (join '' '' (map seg_text (one_segment '' Hi there '')))) \<le> 10 \<and>
   fst (generate_module_title (\<lambda>t. None) (one_segment '' Hi there '') empty_world) = '' Hi there '' \<and>
   fst (generate_module_title (\<lambda>t. None) (one_segment '' Hi there '') empty_world)
     \<noteq> strip (join '' '' (map seg_text (one_segment '' Hi there '')))"
  by (simp add: generate_module_title_def generate_title_def one_segment_def py_split_def
      is_space_def strip_def Let_def)

section \<open>quizzes.py: generating questions\<close>

text \<open>
  \<open>get_module_text\<close>: the title when it is not empty, then the text of every content
  segment, joined by spaces and stripped. (Modules come from the module cache, which
  only \<open>structure_transcript\<close> writes, so the \<open>isinstance\<close> tests of the source hold.)
\<close>

definition get_module_text :: "module \<Rightarrow> string" where
  "get_module_text m =
     (let text_parts = (if title m \<noteq> [] then [title m] else []) @ map seg_text (content m)
      in strip (join '' '' text_parts))"

text \<open>
  \<open>QuizCache.get_cached_quiz\<close> and \<open>QuizCache.save_quiz_to_cache\<close>: the \<open>SELECT\<close> by
  \<open>(video_id, module_title)\<close> and the \<open>INSERT OR REPLACE\<close> of the row with that key.
\<close>

definition get_cached_quiz :: "world \<Rightarrow> string \<Rightarrow> string \<Rightarrow> json option" where
  "get_cached_quiz w video_id module_title = map_option snd (quiz_db w (video_id, module_title))"

definition save_quiz_to_cache :: "string \<Rightarrow> string \<Rightarrow> string \<Rightarrow> json \<Rightarrow> world \<Rightarrow> world" where
  "save_quiz_to_cache video_id module_title difficulty questions w =
     w\<lparr>quiz_db := (quiz_db w)((video_id, module_title) \<mapsto> (difficulty, questions))\<rparr>"

text \<open>
  What the quiz model call gives \<open>generate_quiz_questions\<close>: no response
  (\<open>call_nebius_llm\<close> returned \<open>None\<close>), a response from which the completion cannot be
  read (\<open>json.loads\<close> or the indexing raises, or the completion is not a string), or the
  completion text.
\<close>

datatype llm_reply = NoResponse | Unreadable | Completion string

text \<open>The first occurrence of a pattern in a text: what precedes it and what follows it.\<close>

fun find_sub :: "string \<Rightarrow> string \<Rightarrow> (string \<times> string) option" where
  "find_sub pat [] = (if pat = [] then Some ([], []) else None)"
| "find_sub pat (c # cs) =
     (case strip_prefix pat (c # cs) of
        Some rest \<Rightarrow> Some ([], rest)
      | None \<Rightarrow> (case find_sub pat cs of None \<Rightarrow> None | Some (b, a) \<Rightarrow> Some (c # b, a)))"

text \<open>
  \<open>re.search\<close> of the pattern \<^verbatim>\<open>```json\n(.*?)\n```\<close> with \<open>re.DOTALL\<close>, and its group: the
  text between the first opening fence and the first closing fence after it. (When the
  first opening fence has no closing fence after it, no later one has.)
\<close>

definition json_block :: "string \<Rightarrow> string option" where
  "json_block content_text =
     (case find_sub (''```json'' @ [CHR 0x0A]) content_text of
        None \<Rightarrow> None
      | Some (b, rest) \<Rightarrow>
          (case find_sub (CHR 0x0A # ''```'') rest of
             None \<Rightarrow> None
           | Some (body, a) \<Rightarrow> Some body))"

definition create_fallback_question :: "string \<Rightarrow> json" where
  "create_fallback_question txt =
     JObj [(''question'', JStr (''What is the main focus of '' @ take 15 txt @ ''?'')),
           (''options'', JObj [(''A'', JStr ''Option A''), (''B'', JStr ''Option B''),
                                (''C'', JStr ''Option C''), (''D'', JStr ''Option D'')]),
           (''correct_answer'', JStr ''A''),
           (''explanation'', JStr ''Fallback question due to generation error.'')]"

text \<open>
  The body of the \<open>try\<close> block of \<open>generate_quiz_questions\<close>, every raise a value.
  \<open>llm\<close> is the model call on the prompt built from the text, the difficulty and the
  count; \<open>loads\<close> is \<open>json.loads\<close> (\<open>None\<close> when it raises). With no response the variable
  \<open>content\<close> is never bound and the next statement that reads it raises.
\<close>

definition quiz_try :: "(string \<Rightarrow> string \<Rightarrow> int \<Rightarrow> llm_reply) \<Rightarrow> (string \<Rightarrow> json option)
    \<Rightarrow> string \<Rightarrow> string \<Rightarrow> int \<Rightarrow> error + json" where
  "quiz_try llm loads txt difficulty num_questions =
     (case llm txt difficulty num_questions of
        NoResponse \<Rightarrow> Inl UnboundLocalError
      | Unreadable \<Rightarrow> Inl ResponseError
      | Completion content_text \<Rightarrow>
          (case json_block content_text of
             Some block \<Rightarrow>
               (case loads block of
                  None \<Rightarrow> Inl JSONDecodeError
                | Some questions \<Rightarrow>
                    (case py_len questions of
                       None \<Rightarrow> Inl TypeError
                     | Some n \<Rightarrow> Inr questions))
           | None \<Rightarrow> Inr (JArr [create_fallback_question txt])))"

text \<open>
  \<open>CourseDesignerAgent.generate_quiz_questions\<close>: the guard, then the \<open>try\<close> block with its
  \<open>except Exception\<close> handler, which returns the empty list.
\<close>

definition generate_quiz_questions :: "(string \<Rightarrow> string \<Rightarrow> int \<Rightarrow> llm_reply) \<Rightarrow> (string \<Rightarrow> json option)
    \<Rightarrow> string \<Rightarrow> string \<Rightarrow> int \<Rightarrow> world \<Rightarrow> json \<times> world" where
  "generate_quiz_questions llm loads txt difficulty num_questions w =
     (if txt = [] \<or> num_questions < 1 then (JArr [], w)
      else
        (let w1 = w\<lparr>calls := calls w @ [QuizCall txt difficulty num_questions]\<rparr>
         in case quiz_try llm loads txt difficulty num_questions of
              Inl e \<Rightarrow> (JArr [], w1)
            | Inr questions \<Rightarrow> (questions, w1)))"

text \<open>Reading a dictionary: \<open>d.get(k)\<close> and \<open>set(d.keys())\<close>.\<close>

fun json_get :: "json \<Rightarrow> string \<Rightarrow> json option" where
  "json_get (JObj kvs) k = map_of kvs k"
| "json_get _ k = None"

fun json_keys :: "json \<Rightarrow> string set" where
  "json_keys (JObj kvs) = set (map fst kvs)"
| "json_keys _ = {}"


text \<open>
  Claim C7. When a model call is made (the text is not empty and the count is at least
  one), succeeds, and its completion holds no fenced block tagged \<open>json\<close>, the result is a
  list of exactly one question: its \<open>question\<close> is built from the first 15 characters of
  the text, its \<open>options\<close> have exactly the keys A, B, C and D, its \<open>correct_answer\<close> is A
  and its \<open>explanation\<close> says that it is a fallback.
\<close>

theorem quiz_fallback_question:
  assumes "txt \<noteq> []" and "1 \<le> n" and "llm txt difficulty n = Completion c" and "json_block c = None"
  shows "\<exists>q. fst (generate_quiz_questions llm loads txt difficulty n w) = JArr [q] \<and>
           json_get q ''question'' = Some (JStr (''What is the main focus of '' @ take 15 txt @ ''?'')) \<and>
           map_option json_keys (json_get q ''options'') = Some {''A'', ''B'', ''C'', ''D''} \<and>
           json_get q ''correct_answer'' = Some (JStr ''A'') \<and>
           json_get q ''explanation'' = Some (JStr ''Fallback question due to generation error.'')"
proof -
  have "fst (generate_quiz_questions llm loads txt difficulty n w) = JArr [create_fallback_question txt]"
    using assms by (simp add: generate_quiz_questions_def quiz_try_def Let_def)
  then show ?thesis
    by (simp add: create_fallback_question_def insert_commute)
qed


definition plain_reply :: "string \<Rightarrow> string \<Rightarrow> int \<Rightarrow> llm_reply" where
  "plain_reply txt difficulty n = Completion ''I cannot answer in JSON.''"

definition no_loads :: "string \<Rightarrow> json option" where
  "no_loads s = None"

theorem quiz_fallback_question_witness:
  "''Python is a programming language'' \<noteq> [] \<and> (1::int) \<le> 2 \<and>
   plain_reply ''Python is a programming language'' ''medium'' 2 = Completion ''I cannot answer in JSON.'' \<and>
   json_block ''I cannot answer in JSON.'' = None \<and>
   (\<exists>q. fst (generate_quiz_questions plain_reply no_loads ''Python is a programming language''
                 ''medium'' 2 empty_world) = JArr [q] \<and>
        json_get q ''question'' = Some (JStr ''What is the main focus of Python is a pro?'') \<and>
        map_option json_keys (json_get q ''options'') = Some {''A'', ''B'', ''C'', ''D''} \<and>
        json_get q ''correct_answer'' = Some (JStr ''A'') \<and>
        json_get q ''explanation'' = Some (JStr ''Fallback question due to generation error.''))"
proof -
  have a: "''Python is a programming language'' \<noteq> []" by simp
  have b: "(1::int) \<le> 2" by simp
  have c: "plain_reply ''Python is a programming language'' ''medium'' 2
             = Completion ''I cannot answer in JSON.''"
    by (simp add: plain_reply_def)
  have d: "json_block ''I cannot answer in JSON.'' = None"
    by (simp add: json_block_def)
  from quiz_fallback_question[of "''Python is a programming language''" 2 plain_reply "''medium''"
         "''I cannot answer in JSON.''" no_loads empty_world, OF a b c d] a c d
  show ?thesis
    by simp
qed

section \<open>Quiz generation never raises\<close>

definition silent :: "string \<Rightarrow> string \<Rightarrow> int \<Rightarrow> llm_reply" where
  "silent txt difficulty n = NoResponse"

definition fenced_reply :: "string \<Rightarrow> string \<Rightarrow> int \<Rightarrow> llm_reply" where
  "fenced_reply txt difficulty n = Completion (''```json'' @ [CHR 0x0A] @ ''[oops]'' @ [CHR 0x0A] @ ''```'')"

text \<open>
  Claim C8. \<open>generate_quiz_questions\<close> always returns a value: when the model call gives
  no response the result is the empty list; whenever the \<open>try\<close> block raises, whatever
  the exception, the result is the empty list; and when the text is empty or the count
  is below one the result is the empty list and the world is unchanged, no model call
  having been made.
\<close>

theorem quiz_generation_never_raises:
  "(llm txt difficulty n = NoResponse \<longrightarrow>
      fst (generate_quiz_questions llm loads txt difficulty n w) = JArr []) \<and>
   (quiz_try llm loads txt difficulty n = Inl e \<longrightarrow>
      fst (generate_quiz_questions llm loads txt difficulty n w) = JArr []) \<and>
   (txt = [] \<or> n < 1 \<longrightarrow>
      generate_quiz_questions llm loads txt difficulty n w = (JArr [], w))"
  by (simp add: generate_quiz_questions_def quiz_try_def Let_def)

theorem quiz_generation_never_raises_witness:
  "silent ''some text'' ''easy'' 2 = NoResponse \<and>
   fst (generate_quiz_questions silent no_loads ''some text'' ''easy'' 2 empty_world) = JArr [] \<and>
   quiz_try fenced_reply no_loads ''some text'' ''easy'' 2 = Inl JSONDecodeError \<and>
   fst (generate_quiz_questions fenced_reply no_loads ''some text'' ''easy'' 2 empty_world) = JArr [] \<and>
   generate_quiz_questions plain_reply no_loads [] ''easy'' 2 empty_world = (JArr [], empty_world) \<and>
   generate_quiz_questions plain_reply no_loads ''some text'' ''easy'' 0 empty_world = (JArr [], empty_world)"
proof -
  have a: "silent ''some text'' ''easy'' 2 = NoResponse"
    by (simp add: silent_def)
  have b: "quiz_try fenced_reply no_loads ''some text'' ''easy'' 2 = Inl JSONDecodeError"
    by (simp add: quiz_try_def fenced_reply_def json_block_def no_loads_def)
  from quiz_generation_never_raises[of silent "''some text''" "''easy''" 2 no_loads empty_world UnboundLocalError]
       quiz_generation_never_raises[of fenced_reply "''some text''" "''easy''" 2 no_loads empty_world JSONDecodeError]
       quiz_generation_never_raises[of plain_reply "[]" "''easy''" 2 no_loads empty_world UnboundLocalError]
       quiz_generation_never_raises[of plain_reply "''some text''" "''easy''" 0 no_loads empty_world UnboundLocalError]
       a b
  show ?thesis by simp
qed

section \<open>quizzes.py: the quiz entry point\<close>

text \<open>
  The \<open>for i, module in enumerate(modules)\<close> loop of \<open>generate_all_module_quizzes\<close>. A
  module quiz, the dictionary with the keys \<open>module_title\<close> and \<open>questions\<close>, is a pair.
  The count is the default \<open>num_questions = 2\<close>. Nothing in the \<open>try\<close> block of the loop
  raises: \<open>generate_quiz_questions\<close> catches its own exceptions.
\<close>

fun quiz_loop :: "(string \<Rightarrow> string \<Rightarrow> int \<Rightarrow> llm_reply) \<Rightarrow> (string \<Rightarrow> json option) \<Rightarrow> string \<Rightarrow> string
    \<Rightarrow> module list \<Rightarrow> (string \<times> json) list \<Rightarrow> world \<Rightarrow> (string \<times> json) list \<times> world" where
  "quiz_loop llm loads video_id difficulty [] module_quizzes w = (module_quizzes, w)"
| "quiz_loop llm loads video_id difficulty (m # rest) module_quizzes w =
     (let module_text = get_module_text m
      in if module_text = [] then quiz_loop llm loads video_id difficulty rest module_quizzes w
         else
           (let (questions, w1) = generate_quiz_questions llm loads module_text difficulty 2 w;
                module_quiz = (title m, questions);
                w2 = save_quiz_to_cache video_id (fst module_quiz) difficulty questions w1
            in quiz_loop llm loads video_id difficulty rest (module_quizzes @ [module_quiz]) w2))"

text \<open>\<open>generate_all_module_quizzes\<close>: \<open>if not modules: raise ValueError(...)\<close>, then the loop.\<close>

definition generate_all_module_quizzes :: "(string \<Rightarrow> string \<Rightarrow> int \<Rightarrow> llm_reply) \<Rightarrow> (string \<Rightarrow> json option)
    \<Rightarrow> string \<Rightarrow> string \<Rightarrow> world \<Rightarrow> (error + (string \<times> json) list) \<times> world" where
  "generate_all_module_quizzes llm loads video_id difficulty w =
     (let modules = get_cached_modules w (Some video_id)
      in if \<not> cached_modules_hit modules then (Inl (ValueError ''No modules found in cache''), w)
         else
           (let (module_quizzes, w1) = quiz_loop llm loads video_id difficulty (the modules) [] w
            in (Inr module_quizzes, w1)))"

text \<open>\<open>if cached_questions:\<close> is false for \<open>None\<close> and for every falsy JSON value.\<close>

definition cached_quiz_hit :: "json option \<Rightarrow> bool" where
  "cached_quiz_hit c = (case c of None \<Rightarrow> False | Some q \<Rightarrow> truthy q)"

text \<open>
  \<open>get_quiz\<close>. The result is \<open>Inl\<close> for an exception that leaves the function, and
  otherwise the value returned, \<open>None\<close> being Python's \<open>None\<close> (no quiz has the title).
\<close>

definition get_quiz :: "(string \<Rightarrow> string \<Rightarrow> int \<Rightarrow> llm_reply) \<Rightarrow> (string \<Rightarrow> json option)
    \<Rightarrow> string \<Rightarrow> string \<Rightarrow> string \<Rightarrow> world \<Rightarrow> (error + json option) \<times> world" where
  "get_quiz llm loads video_id module_title difficulty w =
     (let cached_questions = get_cached_quiz w video_id module_title
      in if cached_quiz_hit cached_questions then (Inr cached_questions, w)
         else
           (case generate_all_module_quizzes llm loads video_id difficulty w of
              (Inl e, w1) \<Rightarrow> (Inl e, w1)
            | (Inr quizzes, w1) \<Rightarrow>
                (Inr (map_option snd (find (\<lambda>quiz. fst quiz = module_title) quizzes)), w1)))"

section \<open>The quiz entry point without cached modules\<close>

text \<open>
  Claim C9. \<open>get_quiz\<close> for a video identifier that has neither a cached module
  sequence nor a cached quiz entry raises the \<open>ValueError\<close> of
  \<open>generate_all_module_quizzes\<close>; it returns nothing, and the caches are as they were.
\<close>

theorem get_quiz_without_modules_raises:
  assumes "modules_db w video_id = None" and "quiz_db w (video_id, module_title) = None"
  shows "get_quiz llm loads video_id module_title difficulty w
           = (Inl (ValueError ''No modules found in cache''), w)"
  using assms
  by (simp add: get_quiz_def get_cached_quiz_def cached_quiz_hit_def generate_all_module_quizzes_def
      get_cached_modules_def cached_modules_hit_def)

theorem get_quiz_without_modules_raises_witness:
  "modules_db empty_world ''UEtBMyzLBFY'' = None \<and>
   quiz_db empty_world (''UEtBMyzLBFY'', ''Intro'') = None \<and>
   get_quiz plain_reply no_loads ''UEtBMyzLBFY'' ''Intro'' ''medium'' empty_world
     = (Inl (ValueError ''No modules found in cache''), empty_world)"
proof -
  have a: "modules_db empty_world ''UEtBMyzLBFY'' = None"
    by (simp add: empty_world_def)
  have b: "quiz_db empty_world (''UEtBMyzLBFY'', ''Intro'') = None"
    by (simp add: empty_world_def)
  from get_quiz_without_modules_raises[of empty_world "''UEtBMyzLBFY''" "''Intro''" plain_reply no_loads
         "''medium''", OF a b] a b
  show ?thesis by simp
qed

section \<open>A cached empty sequence is a miss\<close>

definition intro_module :: module where
  "intro_module =
     \<lparr>title = ''Intro'', content = [\<lparr>seg_text = ''Python basics'', seg_start = 0, seg_end = 10\<rparr>],
      start_time = 0, end_time = 10\<rparr>"

definition stale_modules_world :: world where
  "stale_modules_world = empty_world\<lparr>modules_db := [''UEtBMyzLBFY'' \<mapsto> []]\<rparr>"

definition stale_quiz_world :: world where
  "stale_quiz_world =
     empty_world\<lparr>modules_db := [''UEtBMyzLBFY'' \<mapsto> [intro_module]],
                  quiz_db := [(''UEtBMyzLBFY'', ''Intro'') \<mapsto> (''medium'', JArr [])]\<rparr>"

text \<open>
  Claim C10. Both lookups test the truth value of what the cache returned. When the
  module cache holds the empty list for the video, \<open>structure_transcript\<close> does what it
  does on a miss: it segments the transcript, saves the result and returns it. When the
  quiz cache holds the empty list for the video and the module title, \<open>get_quiz\<close> does
  what it does on a miss: it calls \<open>generate_all_module_quizzes\<close> and answers from its
  result.
\<close>

theorem cached_empty_sequence_is_miss:
  "(extract_video_id (embed_url v) = Some k \<and> modules_db w k = Some [] \<longrightarrow>
      structure_transcript tllm v w =
        (fst (segment_transcript tllm (transcript v) w),
         save_modules_to_cache (Some k) (fst (segment_transcript tllm (transcript v) w))
           (snd (segment_transcript tllm (transcript v) w)))) \<and>
   (quiz_db w (video_id, module_title) = Some (d, JArr []) \<longrightarrow>
      get_quiz llm loads video_id module_title difficulty w =
        (case generate_all_module_quizzes llm loads video_id difficulty w of
           (Inl e, w1) \<Rightarrow> (Inl e, w1)
         | (Inr quizzes, w1) \<Rightarrow>
             (Inr (map_option snd (find (\<lambda>quiz. fst quiz = module_title) quizzes)), w1)))"
  by (simp add: structure_transcript_def get_cached_modules_def cached_modules_hit_def
      get_quiz_def get_cached_quiz_def cached_quiz_hit_def Let_def split_beta)


theorem cached_empty_sequence_is_miss_witness:
  "extract_video_id (embed_url example_video) = Some ''UEtBMyzLBFY'' \<and>
   modules_db stale_modules_world ''UEtBMyzLBFY'' = Some [] \<and>
   map content (fst (structure_transcript (\<lambda>t. None) example_video stale_modules_world))
     = [[seg10 0, seg10 10, seg10 20], [seg10 600, seg10 610]] \<and>
   quiz_db stale_quiz_world (''UEtBMyzLBFY'', ''Intro'') = Some (''medium'', JArr []) \<and>
   fst (get_quiz plain_reply no_loads ''UEtBMyzLBFY'' ''Intro'' ''medium'' stale_quiz_world)
     = Inr (Some (JArr [create_fallback_question ''Intro Python basics'']))"
proof -
  have a: "extract_video_id (embed_url example_video) = Some ''UEtBMyzLBFY''"
    by (simp add: example_video_def extract_example_id)
  have b: "modules_db stale_modules_world ''UEtBMyzLBFY'' = Some []"
    by (simp add: stale_modules_world_def empty_world_def)
  have c: "quiz_db stale_quiz_world (''UEtBMyzLBFY'', ''Intro'') = Some (''medium'', JArr [])"
    by (simp add: stale_quiz_world_def empty_world_def)
  have t: "get_module_text intro_module = ''Intro Python basics''"
    by (simp add: get_module_text_def intro_module_def strip_def is_space_def)
  have g: "generate_all_module_quizzes plain_reply no_loads ''UEtBMyzLBFY'' ''medium'' stale_quiz_world
      = (Inr [(''Intro'', JArr [create_fallback_question ''Intro Python basics''])],
         save_quiz_to_cache ''UEtBMyzLBFY'' ''Intro'' ''medium''
           (JArr [create_fallback_question ''Intro Python basics''])
           (stale_quiz_world\<lparr>calls := calls stale_quiz_world @ [QuizCall ''Intro Python basics'' ''medium'' 2]\<rparr>))"
    by (simp add: generate_all_module_quizzes_def get_cached_modules_def cached_modules_hit_def
        stale_quiz_world_def empty_world_def t generate_quiz_questions_def quiz_try_def
        plain_reply_def json_block_def Let_def)
      (simp add: intro_module_def)
  have m: "map content (fst (segment_transcript (\<lambda>t. None) (transcript example_video) stale_modules_world))
      = [[seg10 0, seg10 10, seg10 20], [seg10 600, seg10 610]]"
    by (simp add: segment_transcript_def example_video_def CHUNK_SIZE_def seg10_def Let_def split_beta)
  from cached_empty_sequence_is_miss[where v = example_video and k = "''UEtBMyzLBFY''"
         and w = stale_modules_world and tllm = "\<lambda>t. None" and video_id = "''UEtBMyzLBFY''"
         and module_title = "''Intro''" and d = "''medium''" and llm = plain_reply and loads = no_loads
         and difficulty = "''medium''"]
       cached_empty_sequence_is_miss[where v = example_video and k = "''UEtBMyzLBFY''"
         and w = stale_quiz_world and tllm = "\<lambda>t. None" and video_id = "''UEtBMyzLBFY''"
         and module_title = "''Intro''" and d = "''medium''" and llm = plain_reply and loads = no_loads
         and difficulty = "''medium''"]
       a b c
  show ?thesis by (simp add: g m)
qed

section \<open>The quiz cache and the difficulty\<close>

definition LF :: char where
  "LF = CHR 0x0A"

definition graded_reply :: "string \<Rightarrow> string \<Rightarrow> int \<Rightarrow> llm_reply" where
  "graded_reply txt difficulty n =
     Completion (''```json'' @ [LF] @ (if difficulty = ''easy'' then ''[1]'' else ''[2]'') @ [LF] @ ''```'')"

definition graded_loads :: "string \<Rightarrow> json option" where
  "graded_loads s =
     (if s = ''[1]'' then Some (JArr [JNum 1]) else if s = ''[2]'' then Some (JArr [JNum 2]) else None)"

definition modules_world :: world where
  "modules_world = empty_world\<lparr>modules_db := [''UEtBMyzLBFY'' \<mapsto> [intro_module]]\<rparr>"

text \<open>
  The table \<open>module_questions\<close> has the primary key \<open>(video_id, module_title)\<close>: saving
  for a second difficulty replaces the row saved for the first.
\<close>

lemma save_quiz_replaces_row:
  "get_cached_quiz (save_quiz_to_cache v t d2 q2 (save_quiz_to_cache v t d1 q1 w)) v t = Some q2 \<and>
   quiz_db (save_quiz_to_cache v t d2 q2 (save_quiz_to_cache v t d1 q1 w))
     = (quiz_db w)((v, t) \<mapsto> (d2, q2))"
  by (simp add: get_cached_quiz_def save_quiz_to_cache_def)

text \<open>
  Claim C1 asks for one cache entry per difficulty. On the code, with the model
  answering \<open>[1]\<close> for easy and \<open>[2]\<close> for medium: the easy quiz is generated and saved;
  the medium request for the same video and module is then answered from the cache with
  the easy questions, and the cache holds the single row of the easy quiz. Saving easy
  and then medium leaves the single row of the medium quiz.
\<close>

theorem quiz_cache_ignores_difficulty:
  "fst (get_quiz graded_reply graded_loads ''UEtBMyzLBFY'' ''Intro'' ''easy'' modules_world)
     = Inr (Some (JArr [JNum 1])) \<and>
   fst (get_quiz graded_reply graded_loads ''UEtBMyzLBFY'' ''Intro'' ''medium'' modules_world)
     = Inr (Some (JArr [JNum 2])) \<and>
   fst (get_quiz graded_reply graded_loads ''UEtBMyzLBFY'' ''Intro'' ''medium''
          (snd (get_quiz graded_reply graded_loads ''UEtBMyzLBFY'' ''Intro'' ''easy'' modules_world)))
     = Inr (Some (JArr [JNum 1])) \<and>
   quiz_db (snd (get_quiz graded_reply graded_loads ''UEtBMyzLBFY'' ''Intro'' ''medium''
          (snd (get_quiz graded_reply graded_loads ''UEtBMyzLBFY'' ''Intro'' ''easy'' modules_world))))
     = [(''UEtBMyzLBFY'', ''Intro'') \<mapsto> (''easy'', JArr [JNum 1])] \<and>
   quiz_db (save_quiz_to_cache ''UEtBMyzLBFY'' ''Intro'' ''medium'' (JArr [JNum 2])
          (save_quiz_to_cache ''UEtBMyzLBFY'' ''Intro'' ''easy'' (JArr [JNum 1]) modules_world))
     = [(''UEtBMyzLBFY'', ''Intro'') \<mapsto> (''medium'', JArr [JNum 2])]"
proof -
  have t: "get_module_text intro_module = ''Intro Python basics''"
    by (simp add: get_module_text_def intro_module_def strip_def is_space_def)
  have ti: "title intro_module = ''Intro''"
    by (simp add: intro_module_def)
  have e: "get_quiz graded_reply graded_loads ''UEtBMyzLBFY'' ''Intro'' ''easy'' modules_world
      = (Inr (Some (JArr [JNum 1])),
         save_quiz_to_cache ''UEtBMyzLBFY'' ''Intro'' ''easy'' (JArr [JNum 1])
           (modules_world\<lparr>calls := calls modules_world @ [QuizCall ''Intro Python basics'' ''easy'' 2]\<rparr>))"
    by (simp add: get_quiz_def get_cached_quiz_def cached_quiz_hit_def generate_all_module_quizzes_def
        get_cached_modules_def cached_modules_hit_def modules_world_def empty_world_def t ti
        generate_quiz_questions_def quiz_try_def graded_reply_def graded_loads_def json_block_def LF_def
        Let_def)
  have m: "fst (get_quiz graded_reply graded_loads ''UEtBMyzLBFY'' ''Intro'' ''medium'' modules_world)
      = Inr (Some (JArr [JNum 2]))"
    by (simp add: get_quiz_def get_cached_quiz_def cached_quiz_hit_def generate_all_module_quizzes_def
        get_cached_modules_def cached_modules_hit_def modules_world_def empty_world_def t ti
        generate_quiz_questions_def quiz_try_def graded_reply_def graded_loads_def json_block_def LF_def
        Let_def)
  have h: "get_quiz graded_reply graded_loads ''UEtBMyzLBFY'' ''Intro'' ''medium''
             (save_quiz_to_cache ''UEtBMyzLBFY'' ''Intro'' ''easy'' (JArr [JNum 1]) w)
      = (Inr (Some (JArr [JNum 1])), save_quiz_to_cache ''UEtBMyzLBFY'' ''Intro'' ''easy'' (JArr [JNum 1]) w)"
    for w
    by (simp add: get_quiz_def get_cached_quiz_def cached_quiz_hit_def save_quiz_to_cache_def)
  show ?thesis
    by (simp add: e m h) (simp add: save_quiz_to_cache_def modules_world_def empty_world_def)
qed

section \<open>transcriber.py and the modules route of main.py\<close>

text \<open>
  What \<open>extract_info\<close> of yt-dlp gives \<open>transcribe_youtube_video\<close>: the fields read with
  \<open>info.get\<close>, a missing one replaced by its default.
\<close>

record info =
  info_id :: string
  info_title :: string
  info_duration :: int

text \<open>\<open>get_transcription_from_db\<close> and \<open>save_transcription_to_db\<close>.\<close>

definition get_transcription_from_db :: "world \<Rightarrow> string \<Rightarrow> video option" where
  "get_transcription_from_db w video_id = transcriptions_db w video_id"

definition save_transcription_to_db :: "string \<Rightarrow> video \<Rightarrow> world \<Rightarrow> world" where
  "save_transcription_to_db video_id video_info w =
     w\<lparr>transcriptions_db := (transcriptions_db w)(video_id \<mapsto> video_info)\<rparr>"

text \<open>
  \<open>transcribe_youtube_video\<close>. \<open>ydl\<close> is the metadata lookup \<open>extract_info\<close> (\<open>None\<close> when
  it raises); \<open>whisper\<close> stands for loading the model, downloading the audio of the URL
  and transcribing it (\<open>None\<close> when one of them raises). The function catches every
  exception and returns \<open>None\<close>. A cached row is a dictionary of four keys, so
  \<open>if cached_result:\<close> holds whenever the row exists.
\<close>

definition transcribe_youtube_video :: "(string \<Rightarrow> info option) \<Rightarrow> (string \<Rightarrow> segment list option) \<Rightarrow> string
    \<Rightarrow> world \<Rightarrow> video option \<times> world" where
  "transcribe_youtube_video ydl whisper url w =
     (let w1 = w\<lparr>calls := calls w @ [TranscriptCall url]\<rparr>
      in case ydl url of
           None \<Rightarrow> (None, w1)
         | Some i \<Rightarrow>
             (let video_id = info_id i
              in case get_transcription_from_db w1 video_id of
                   Some cached_result \<Rightarrow> (Some cached_result, w1)
                 | None \<Rightarrow>
                     (let w2 = w1\<lparr>calls := calls w1 @ [WhisperRun url]\<rparr>
                      in case whisper url of
                           None \<Rightarrow> (None, w2)
                         | Some segments \<Rightarrow>
                             (let video_info =
                                    \<lparr>video_title = info_title i,
                                     embed_url = ''https://www.youtube.com/embed/'' @ video_id,
                                     duration = info_duration i, transcript = segments\<rparr>
                              in (Some video_info, save_transcription_to_db video_id video_info w2)))))"

text \<open>
  The route \<open>/modules\<close> of main.py (the function \<open>modules\<close>). When the provider returns
  \<open>None\<close>, the subscript \<open>video['embed_url']\<close> in \<open>structure_transcript\<close> raises a
  \<open>TypeError\<close>, and the route answers with status 500.
\<close>

datatype response = Modules "module list" | Error400 string | Error500 error

definition watch_url :: "string \<Rightarrow> string" where
  "watch_url video_id = ''https://www.youtube.com/watch?v='' @ video_id"

definition modules_endpoint :: "(string \<Rightarrow> info option) \<Rightarrow> (string \<Rightarrow> segment list option)
    \<Rightarrow> (string \<Rightarrow> string option) \<Rightarrow> string \<Rightarrow> world \<Rightarrow> response \<times> world" where
  "modules_endpoint ydl whisper llm video_id w =
     (if video_id = [] then (Error400 ''Video ID is required'', w)
      else
        (let (video_transcript, w1) = transcribe_youtube_video ydl whisper (watch_url video_id) w
         in case video_transcript of
              None \<Rightarrow> (Error500 TypeError, w1)
            | Some v \<Rightarrow>
                (let (modules, w2) = structure_transcript llm v w1
                 in (Modules modules, w2))))"

text \<open>Counting the outside calls in the log.\<close>

fun is_transcript_call :: "event \<Rightarrow> bool" where
  "is_transcript_call (TranscriptCall u) = True"
| "is_transcript_call _ = False"

fun is_whisper_run :: "event \<Rightarrow> bool" where
  "is_whisper_run (WhisperRun u) = True"
| "is_whisper_run _ = False"

fun is_title_call :: "event \<Rightarrow> bool" where
  "is_title_call (TitleCall t) = True"
| "is_title_call _ = False"

definition transcript_calls :: "world \<Rightarrow> nat" where
  "transcript_calls w = length (filter is_transcript_call (calls w))"

definition whisper_runs :: "world \<Rightarrow> nat" where
  "whisper_runs w = length (filter is_whisper_run (calls w))"

definition title_calls :: "world \<Rightarrow> nat" where
  "title_calls w = length (filter is_title_call (calls w))"

definition segmenter_runs :: "world \<Rightarrow> nat" where
  "segmenter_runs w = count_list (calls w) SegmenterRun"

text \<open>
  Title generation and the segmentation loop leave the tables alone and add only title
  calls to the log, one for every module finished.
\<close>

definition only_titles :: "world \<Rightarrow> world \<Rightarrow> bool" where
  "only_titles w w' =
     (transcriptions_db w' = transcriptions_db w \<and> modules_db w' = modules_db w \<and>
      quiz_db w' = quiz_db w \<and> transcript_calls w' = transcript_calls w \<and>
      whisper_runs w' = whisper_runs w \<and> segmenter_runs w' = segmenter_runs w)"

lemma generate_module_title_world:
  "snd (generate_module_title llm c w) = w\<lparr>calls := calls w @ [TitleCall (join '' '' (map seg_text c))]\<rparr>"
  by (simp add: generate_module_title_def generate_title_def Let_def split: option.splits)

lemma generate_module_title_only_titles:
  "only_titles w (snd (generate_module_title llm c w))"
  by (simp add: generate_module_title_world only_titles_def transcript_calls_def whisper_runs_def
      segmenter_runs_def)

lemma only_titles_trans: "only_titles a b \<Longrightarrow> only_titles b c \<Longrightarrow> only_titles a c"
  by (simp add: only_titles_def)

lemma segment_loop_only_titles:
  "only_titles w (snd (snd (segment_loop llm es ms cur w)))"
proof (induction es arbitrary: ms cur w)
  case Nil
  then show ?case by (simp add: only_titles_def)
next
  case (Cons e es)
  show ?case
  proof (cases "content cur = [] \<or> seg_start e - start_time cur < CHUNK_SIZE")
    case True
    then show ?thesis using Cons.IH by auto
  next
    case False
    obtain t w1 where g: "generate_module_title llm (content cur) w = (t, w1)"
      by (metis surj_pair)
    have "only_titles w w1"
      using generate_module_title_only_titles[of w llm "content cur"] g by simp
    moreover have "only_titles w1 (snd (snd (segment_loop llm (e # es) ms cur w)))"
      using False g Cons.IH by simp
    ultimately show ?thesis by (rule only_titles_trans)
  qed
qed

lemma segment_loop_title_calls:
  "segment_loop llm es ms cur w = (ms', cur', w') \<Longrightarrow>
   title_calls w' + length ms = title_calls w + length ms'"
proof (induction es arbitrary: ms cur w)
  case Nil
  then show ?case by simp
next
  case (Cons e es)
  show ?case
  proof (cases "content cur = [] \<or> seg_start e - start_time cur < CHUNK_SIZE")
    case True
    with Cons.prems Cons.IH show ?thesis by (auto split: if_splits)
  next
    case False
    obtain t w1 where g: "generate_module_title llm (content cur) w = (t, w1)"
      by (metis surj_pair)
    let ?done = "cur\<lparr>end_time := seg_end (last (content cur)), title := t\<rparr>"
    let ?new = "\<lparr>title = '''', content = [e], start_time = seg_start e, end_time = 0\<rparr>"
    from False g Cons.prems have "segment_loop llm es (ms @ [?done]) ?new w1 = (ms', cur', w')"
      by simp
    from Cons.IH[OF this] have "title_calls w' + length ms + 1 = title_calls w1 + length ms'"
      by simp
    moreover have "title_calls w1 = title_calls w + 1"
      using generate_module_title_world[of llm "content cur" w] g by (simp add: title_calls_def)
    ultimately show ?thesis by simp
  qed
qed

lemma segment_transcript_world:
  "transcriptions_db (snd (segment_transcript llm es w)) = transcriptions_db w \<and>
   modules_db (snd (segment_transcript llm es w)) = modules_db w \<and>
   transcript_calls (snd (segment_transcript llm es w)) = transcript_calls w \<and>
   whisper_runs (snd (segment_transcript llm es w)) = whisper_runs w \<and>
   segmenter_runs (snd (segment_transcript llm es w)) = segmenter_runs w + 1"
proof -
  let ?w0 = "w\<lparr>calls := calls w @ [SegmenterRun]\<rparr>"
  let ?init = "\<lparr>title = '''', content = [], start_time = 0, end_time = 0\<rparr>"
  obtain ms cur w1 where l: "segment_loop llm es [] ?init ?w0 = (ms, cur, w1)"
    by (metis prod_cases3)
  have a: "only_titles ?w0 w1"
    using segment_loop_only_titles[of ?w0 llm es "[]" ?init] l by simp
  have b: "only_titles w1 (snd (generate_module_title llm (content cur) w1))"
    by (rule generate_module_title_only_titles)
  have c: "only_titles ?w0 (snd (segment_transcript llm es w))"
    using l a only_titles_trans[OF a b]
    by (simp add: segment_transcript_def Let_def split_beta)
  then show ?thesis
    by (simp add: only_titles_def transcript_calls_def whisper_runs_def segmenter_runs_def)
qed

lemma segment_transcript_title_calls:
  "title_calls (snd (segment_transcript llm es w))
     = title_calls w + length (fst (segment_transcript llm es w))"
proof -
  let ?w0 = "w\<lparr>calls := calls w @ [SegmenterRun]\<rparr>"
  let ?init = "\<lparr>title = '''', content = [], start_time = 0, end_time = 0\<rparr>"
  obtain ms cur w1 where l: "segment_loop llm es [] ?init ?w0 = (ms, cur, w1)"
    by (metis prod_cases3)
  from segment_loop_title_calls[OF l] have a: "title_calls w1 = title_calls w + length ms"
    by (simp add: title_calls_def)
  have b: "title_calls (snd (generate_module_title llm (content cur) w1)) = title_calls w1 + 1"
    by (simp add: generate_module_title_world title_calls_def)
  from l a b show ?thesis
    by (simp add: segment_transcript_def Let_def split_beta)
qed


text \<open>
  A call of the provider that returns a video leaves it in the transcript cache under
  the identifier of the metadata, has run Whisper at most once, and changes nothing else.
\<close>

lemma transcribe_result:
  assumes "transcribe_youtube_video ydl whisper url w = (Some v, w0)" and "ydl url = Some i"
  shows "transcriptions_db w0 (info_id i) = Some v \<and> modules_db w0 = modules_db w \<and>
         transcript_calls w0 = transcript_calls w + 1 \<and> whisper_runs w0 \<le> whisper_runs w + 1 \<and>
         segmenter_runs w0 = segmenter_runs w \<and> title_calls w0 = title_calls w"
  using assms
  by (auto simp: transcribe_youtube_video_def get_transcription_from_db_def
      save_transcription_to_db_def transcript_calls_def whisper_runs_def segmenter_runs_def
      title_calls_def Let_def split: option.splits)

lemma transcribe_cached:
  assumes "transcriptions_db w (info_id i) = Some v" and "ydl url = Some i"
  shows "transcribe_youtube_video ydl whisper url w
           = (Some v, w\<lparr>calls := calls w @ [TranscriptCall url]\<rparr>)"
  using assms
  by (simp add: transcribe_youtube_video_def get_transcription_from_db_def)

lemma structure_transcript_then_hit:
  assumes "structure_transcript llm v w = (ms, w1)" and "ms \<noteq> []"
    and "extract_video_id (embed_url v) = Some k"
  shows "modules_db w1 k = Some ms \<and> transcriptions_db w1 = transcriptions_db w \<and>
         transcript_calls w1 = transcript_calls w \<and> whisper_runs w1 = whisper_runs w \<and>
         segmenter_runs w1 \<le> segmenter_runs w + 1 \<and> title_calls w1 \<le> title_calls w + length ms"
proof (cases "cached_modules_hit (get_cached_modules w (Some k))")
  case True
  with assms show ?thesis
    by (auto simp: structure_transcript_def get_cached_modules_def cached_modules_hit_def Let_def
        split: option.splits)
next
  case False
  with assms(1,3) have ms: "ms = fst (segment_transcript llm (transcript v) w)"
    and w1: "w1 = save_modules_to_cache (Some k) ms (snd (segment_transcript llm (transcript v) w))"
    by (auto simp: structure_transcript_def Let_def split_beta)
  from w1 ms segment_transcript_world[of llm "transcript v" w]
       segment_transcript_title_calls[of llm "transcript v" w]
  show ?thesis
    by (simp add: save_modules_to_cache_def transcript_calls_def whisper_runs_def
        segmenter_runs_def title_calls_def)
qed

lemma structure_transcript_hit:
  assumes "modules_db w k = Some ms" and "ms \<noteq> []" and "extract_video_id (embed_url v) = Some k"
  shows "structure_transcript llm v w = (ms, w)"
  using assms
  by (simp add: structure_transcript_def get_cached_modules_def cached_modules_hit_def)

text \<open>
  Claim C6, as the code has it. Let a first call of the route for a video reference
  return a non-empty module sequence, for a video whose embed URL yields an identifier.
  That call has called the transcript provider once, run Whisper at most once, run the
  segmentation loop at most once and called the title model at most once for every
  module returned. Let the metadata lookup answer a second call for the same reference
  with the same video identifier. Then the second call, whatever Whisper and the title
  model would answer, calls the transcript provider once more and does nothing else
  outside: the provider answers from the transcript cache, no segmentation is run, no
  model is called. It returns the module sequence of the first call.
\<close>

theorem get_modules_twice:
  assumes "modules_endpoint ydl whisper llm video_id w = (Modules ms, w1)" and "ms \<noteq> []"
    and "ydl (watch_url video_id) = Some i"
    and "fst (transcribe_youtube_video ydl whisper (watch_url video_id) w) = Some v"
    and "extract_video_id (embed_url v) = Some k"
    and "ydl2 (watch_url video_id) = Some i2" and "info_id i2 = info_id i"
  shows "modules_endpoint ydl2 whisper2 llm2 video_id w1
           = (Modules ms, w1\<lparr>calls := calls w1 @ [TranscriptCall (watch_url video_id)]\<rparr>) \<and>
         transcript_calls w1 = transcript_calls w + 1 \<and>
         whisper_runs w1 \<le> whisper_runs w + 1 \<and>
         segmenter_runs w1 \<le> segmenter_runs w + 1 \<and>
         title_calls w1 \<le> title_calls w + length ms"
proof -
  let ?url = "watch_url video_id"
  let ?w2 = "w1\<lparr>calls := calls w1 @ [TranscriptCall ?url]\<rparr>"
  obtain w0 where tr: "transcribe_youtube_video ydl whisper ?url w = (Some v, w0)"
    using assms(4) by (metis prod.collapse)
  from assms(1) have ne: "video_id \<noteq> []"
    by (auto simp: modules_endpoint_def split: if_splits)
  with assms(1) tr have st: "structure_transcript llm v w0 = (ms, w1)"
    by (auto simp: modules_endpoint_def Let_def split: prod.splits)
  note a = transcribe_result[OF tr assms(3)]
  note b = structure_transcript_then_hit[OF st assms(2,5)]
  from a b assms(7) have "transcriptions_db w1 (info_id i2) = Some v"
    by simp
  then have "transcribe_youtube_video ydl2 whisper2 ?url w1 = (Some v, ?w2)"
    using assms(6) by (rule transcribe_cached)
  moreover from b have "modules_db ?w2 k = Some ms"
    by simp
  then have "structure_transcript llm2 v ?w2 = (ms, ?w2)"
    using assms(2,5) by (rule structure_transcript_hit)
  ultimately have "modules_endpoint ydl2 whisper2 llm2 video_id w1 = (Modules ms, ?w2)"
    using ne by (simp add: modules_endpoint_def Let_def)
  with a b show ?thesis by simp
qed

definition example_info :: info where
  "example_info = \<lparr>info_id = ''UEtBMyzLBFY'', info_title = ''Intro'', info_duration = 620\<rparr>"

definition example_ydl :: "string \<Rightarrow> info option" where
  "example_ydl url =
     (if url = ''https://www.youtube.com/watch?v=UEtBMyzLBFY'' then Some example_info else None)"

definition example_whisper :: "string \<Rightarrow> segment list option" where
  "example_whisper url = Some [seg10 0, seg10 10, seg10 20, seg10 600, seg10 610]"

definition example_modules :: "module list" where
  "example_modules =
     [\<lparr>title = ''x x x'', content = [seg10 0, seg10 10, seg10 20], start_time = 0, end_time = 30\<rparr>,
      \<lparr>title = ''x x'', content = [seg10 600, seg10 610], start_time = 600, end_time = 620\<rparr>]"

definition after_first_call :: world where
  "after_first_call =
     \<lparr>transcriptions_db = [''UEtBMyzLBFY'' \<mapsto> example_video],
      modules_db = [''UEtBMyzLBFY'' \<mapsto> example_modules], quiz_db = Map.empty,
      calls = [TranscriptCall ''https://www.youtube.com/watch?v=UEtBMyzLBFY'',
               WhisperRun ''https://www.youtube.com/watch?v=UEtBMyzLBFY'', SegmenterRun,
               TitleCall ''x x x'', TitleCall ''x x'']\<rparr>"

lemma example_transcribe:
  "transcribe_youtube_video example_ydl example_whisper (watch_url ''UEtBMyzLBFY'') empty_world =
     (Some example_video,
      \<lparr>transcriptions_db = [''UEtBMyzLBFY'' \<mapsto> example_video], modules_db = Map.empty,
       quiz_db = Map.empty,
       calls = [TranscriptCall ''https://www.youtube.com/watch?v=UEtBMyzLBFY'',
                WhisperRun ''https://www.youtube.com/watch?v=UEtBMyzLBFY'']\<rparr>)"
  by (simp add: transcribe_youtube_video_def example_ydl_def example_info_def example_whisper_def
      watch_url_def
      get_transcription_from_db_def save_transcription_to_db_def empty_world_def example_video_def
      Let_def)

lemma example_first_call:
  "modules_endpoint example_ydl example_whisper (\<lambda>t. None) ''UEtBMyzLBFY'' empty_world =
     (Modules example_modules, after_first_call)"
  by (simp add: modules_endpoint_def example_transcribe)
    (simp add: after_first_call_def structure_transcript_def
      example_video_def extract_example_id get_cached_modules_def cached_modules_hit_def
      segment_transcript_def CHUNK_SIZE_def seg10_def generate_module_title_def
      generate_title_def py_split_def is_space_def save_modules_to_cache_def example_modules_def
      Let_def)

lemma example_second_call:
  "modules_endpoint example_ydl whisper2 llm2 ''UEtBMyzLBFY'' after_first_call
     = (Modules example_modules,
        after_first_call\<lparr>calls := calls after_first_call
           @ [TranscriptCall ''https://www.youtube.com/watch?v=UEtBMyzLBFY'']\<rparr>)"
  by (simp add: modules_endpoint_def watch_url_def transcribe_youtube_video_def example_ydl_def
      example_info_def
      get_transcription_from_db_def structure_transcript_def
      example_video_def extract_example_id get_cached_modules_def cached_modules_hit_def
      after_first_call_def example_modules_def Let_def)


theorem get_modules_twice_witness:
  "modules_endpoint example_ydl example_whisper (\<lambda>t. None) ''UEtBMyzLBFY'' empty_world
     = (Modules example_modules, after_first_call) \<and>
   example_modules \<noteq> [] \<and>
   example_ydl (watch_url ''UEtBMyzLBFY'') = Some example_info \<and>
   fst (transcribe_youtube_video example_ydl example_whisper (watch_url ''UEtBMyzLBFY'') empty_world)
     = Some example_video \<and>
   extract_video_id (embed_url example_video) = Some ''UEtBMyzLBFY'' \<and>
   modules_endpoint example_ydl (\<lambda>u. None) (\<lambda>t. Some ''Another title'') ''UEtBMyzLBFY'' after_first_call
     = (Modules example_modules,
        after_first_call\<lparr>calls := calls after_first_call
           @ [TranscriptCall (watch_url ''UEtBMyzLBFY'')]\<rparr>) \<and>
   transcript_calls after_first_call = 1 \<and>
   whisper_runs after_first_call \<le> 1 \<and>
   segmenter_runs after_first_call \<le> 1 \<and>
   title_calls after_first_call \<le> 2"
proof -
  have b: "example_modules \<noteq> []"
    by (simp add: example_modules_def)
  have c: "example_ydl (watch_url ''UEtBMyzLBFY'') = Some example_info"
    by (simp add: example_ydl_def watch_url_def)
  have d: "fst (transcribe_youtube_video example_ydl example_whisper (watch_url ''UEtBMyzLBFY'')
             empty_world) = Some example_video"
    by (simp add: example_transcribe)
  have e: "extract_video_id (embed_url example_video) = Some ''UEtBMyzLBFY''"
    by (simp add: example_video_def extract_example_id)
  have z: "transcript_calls empty_world = 0" "whisper_runs empty_world = 0"
    "segmenter_runs empty_world = 0" "title_calls empty_world = 0"
    "length example_modules = 2"
    by (simp_all add: transcript_calls_def whisper_runs_def segmenter_runs_def title_calls_def
        empty_world_def example_modules_def)
  from get_modules_twice[where ydl = example_ydl and whisper = example_whisper and llm = "\<lambda>t. None"
         and video_id = "''UEtBMyzLBFY''" and w = empty_world and ms = example_modules
         and ?w1.0 = after_first_call and i = example_info and v = example_video
         and k = "''UEtBMyzLBFY''" and ?ydl2.0 = example_ydl and ?i2.0 = example_info
         and ?whisper2.0 = "\<lambda>u. None" and ?llm2.0 = "\<lambda>t. Some ''Another title''",
         OF example_first_call b c d e c refl]
       example_first_call b c d e z
  show ?thesis by simp
qed

text \<open>
  The claim as written fails on the transcript provider: the route calls it before
  \<open>structure_transcript\<close> looks in the module cache. Two calls of the route call the
  provider twice; the second call, a hit in the module cache, calls it once.
\<close>

theorem get_modules_provider_counterexample:
  "calls (snd (modules_endpoint example_ydl example_whisper (\<lambda>t. None) ''UEtBMyzLBFY''
          (snd (modules_endpoint example_ydl example_whisper (\<lambda>t. None) ''UEtBMyzLBFY'' empty_world))))
     = [TranscriptCall ''https://www.youtube.com/watch?v=UEtBMyzLBFY'',
        WhisperRun ''https://www.youtube.com/watch?v=UEtBMyzLBFY'', SegmenterRun,
        TitleCall ''x x x'', TitleCall ''x x'',
        TranscriptCall ''https://www.youtube.com/watch?v=UEtBMyzLBFY''] \<and>
   \<not> transcript_calls (snd (modules_endpoint example_ydl example_whisper (\<lambda>t. None) ''UEtBMyzLBFY''
          (snd (modules_endpoint example_ydl example_whisper (\<lambda>t. None) ''UEtBMyzLBFY'' empty_world))))
       \<le> 1"
proof -
  have "modules_endpoint example_ydl example_whisper (\<lambda>t. None) ''UEtBMyzLBFY''
          (snd (modules_endpoint example_ydl example_whisper (\<lambda>t. None) ''UEtBMyzLBFY'' empty_world))
      = (Modules example_modules,
         after_first_call\<lparr>calls := calls after_first_call
           @ [TranscriptCall ''https://www.youtube.com/watch?v=UEtBMyzLBFY'']\<rparr>)"
    by (simp add: example_first_call example_second_call)
  then show ?thesis
    by (simp add: transcript_calls_def after_first_call_def)
qed

end
